theory Spec2Isabelle
  imports Main "HOL-Library.AList"
begin

section \<open>Object literals\<close>

text \<open>
  The TypeScript sources assemble their documents from object literals, several of them
  with computed keys (\<^verbatim>\<open>[`aws:RequestTag/kubernetes.io/cluster/${clusterName}`]: 'owned'\<close>).
  An object literal is evaluated property by property: a key that is already present keeps
  its position and takes the new value, a new key is appended. None of the keys written
  in the sources is an integer index, so the property order is the insertion order.
  Objects are association lists built that way.
\<close>

definition objectLiteral :: "(string \<times> 'v) list \<Rightarrow> (string \<times> 'v) list" where
  "objectLiteral props = foldl (\<lambda>obj (k, v). AList.update k v obj) [] props"

definition getProperty :: "(string \<times> 'v) list \<Rightarrow> string \<Rightarrow> 'v option" where
  "getProperty obj k = map_of obj k"


section \<open>The controller policy (karpenter-controller-policy.ts)\<close>

text \<open>
  \<^verbatim>\<open>cdk.Aws.PARTITION\<close>, \<^verbatim>\<open>cdk.Aws.REGION\<close> and \<^verbatim>\<open>cdk.Aws.ACCOUNT_ID\<close> are string constants
  of the CDK library (placeholders that the deployment resolves). The library is not
  part of the repository, so the three strings are a parameter of the model.
\<close>

record Aws =
  PARTITION :: string
  REGION :: string
  ACCOUNT_ID :: string

datatype Effect = ALLOW | DENY

text \<open>A condition value is a single string or an array of strings.\<close>

datatype ConditionValue = Str string | Strs "string list"

type_synonym Conditions = "(string \<times> (string \<times> ConditionValue) list) list"

record PolicyStatement =
  sid :: string
  effect :: Effect
  resources :: "string list"
  actions :: "string list"
  conditions :: Conditions

record ManagedPolicy =
  managedPolicyName :: string
  description :: string
  statements :: "PolicyStatement list"

text \<open>
  The sixteen elements of the \<^verbatim>\<open>statements\<close> array, in the order of the source, each
  named by its \<^verbatim>\<open>sid\<close>. A statement written without \<^verbatim>\<open>conditions\<close> has the empty
  condition object.
\<close>

definition AllowScopedEC2InstanceAccessActions :: "Aws \<Rightarrow> PolicyStatement" where
  "AllowScopedEC2InstanceAccessActions aws = \<lparr>
     sid = ''AllowScopedEC2InstanceAccessActions'',
     effect = ALLOW,
     resources = [
       ''arn:'' @ PARTITION aws @ '':ec2:'' @ REGION aws @ ''::image/*'',
       ''arn:'' @ PARTITION aws @ '':ec2:'' @ REGION aws @ ''::snapshot/*'',
       ''arn:'' @ PARTITION aws @ '':ec2:'' @ REGION aws @ '':*:security-group/*'',
       ''arn:'' @ PARTITION aws @ '':ec2:'' @ REGION aws @ '':*:subnet/*'',
       ''arn:'' @ PARTITION aws @ '':ec2:'' @ REGION aws @ '':*:capacity-reservation/*''],
     actions = [''ec2:RunInstances'', ''ec2:CreateFleet''],
     conditions = [] \<rparr>"

definition AllowScopedEC2LaunchTemplateAccessActions :: "Aws \<Rightarrow> string \<Rightarrow> PolicyStatement" where
  "AllowScopedEC2LaunchTemplateAccessActions aws clusterName = \<lparr>
     sid = ''AllowScopedEC2LaunchTemplateAccessActions'',
     effect = ALLOW,
     resources = [''arn:'' @ PARTITION aws @ '':ec2:'' @ REGION aws @ '':*:launch-template/*''],
     actions = [''ec2:RunInstances'', ''ec2:CreateFleet''],
     conditions = objectLiteral [
       (''StringEquals'', objectLiteral [
          (''aws:ResourceTag/kubernetes.io/cluster/'' @ clusterName, Str ''owned'')]),
       (''StringLike'', objectLiteral [
          (''aws:ResourceTag/karpenter.sh/nodepool'', Str ''*'')])] \<rparr>"

definition AllowScopedEC2InstanceActionsWithTags :: "Aws \<Rightarrow> string \<Rightarrow> PolicyStatement" where
  "AllowScopedEC2InstanceActionsWithTags aws clusterName = \<lparr>
     sid = ''AllowScopedEC2InstanceActionsWithTags'',
     effect = ALLOW,
     resources = [
       ''arn:'' @ PARTITION aws @ '':ec2:'' @ REGION aws @ '':*:fleet/*'',
       ''arn:'' @ PARTITION aws @ '':ec2:'' @ REGION aws @ '':*:instance/*'',
       ''arn:'' @ PARTITION aws @ '':ec2:'' @ REGION aws @ '':*:volume/*'',
       ''arn:'' @ PARTITION aws @ '':ec2:'' @ REGION aws @ '':*:network-interface/*'',
       ''arn:'' @ PARTITION aws @ '':ec2:'' @ REGION aws @ '':*:launch-template/*'',
       ''arn:'' @ PARTITION aws @ '':ec2:'' @ REGION aws @ '':*:spot-instances-request/*''],
     actions = [''ec2:RunInstances'', ''ec2:CreateFleet'', ''ec2:CreateLaunchTemplate''],
     conditions = objectLiteral [
       (''StringEquals'', objectLiteral [
          (''aws:RequestTag/kubernetes.io/cluster/'' @ clusterName, Str ''owned''),
          (''aws:RequestTag/eks:eks-cluster-name'', Str clusterName)]),
       (''StringLike'', objectLiteral [
          (''aws:RequestTag/karpenter.sh/nodepool'', Str ''*'')])] \<rparr>"

definition AllowScopedResourceCreationTagging :: "Aws \<Rightarrow> string \<Rightarrow> PolicyStatement" where
  "AllowScopedResourceCreationTagging aws clusterName = \<lparr>
     sid = ''AllowScopedResourceCreationTagging'',
     effect = ALLOW,
     resources = [
       ''arn:'' @ PARTITION aws @ '':ec2:'' @ REGION aws @ '':*:fleet/*'',
       ''arn:'' @ PARTITION aws @ '':ec2:'' @ REGION aws @ '':*:instance/*'',
       ''arn:'' @ PARTITION aws @ '':ec2:'' @ REGION aws @ '':*:volume/*'',
       ''arn:'' @ PARTITION aws @ '':ec2:'' @ REGION aws @ '':*:network-interface/*'',
       ''arn:'' @ PARTITION aws @ '':ec2:'' @ REGION aws @ '':*:launch-template/*'',
       ''arn:'' @ PARTITION aws @ '':ec2:'' @ REGION aws @ '':*:spot-instances-request/*''],
     actions = [''ec2:CreateTags''],
     conditions = objectLiteral [
       (''StringEquals'', objectLiteral [
          (''aws:RequestTag/kubernetes.io/cluster/'' @ clusterName, Str ''owned''),
          (''aws:RequestTag/eks:eks-cluster-name'', Str clusterName),
          (''ec2:CreateAction'', Strs [''RunInstances'', ''CreateFleet'', ''CreateLaunchTemplate''])]),
       (''StringLike'', objectLiteral [
          (''aws:RequestTag/karpenter.sh/nodepool'', Str ''*'')])] \<rparr>"

definition AllowScopedResourceTagging :: "Aws \<Rightarrow> string \<Rightarrow> PolicyStatement" where
  "AllowScopedResourceTagging aws clusterName = \<lparr>
     sid = ''AllowScopedResourceTagging'',
     effect = ALLOW,
     resources = [''arn:'' @ PARTITION aws @ '':ec2:'' @ REGION aws @ '':*:instance/*''],
     actions = [''ec2:CreateTags''],
     conditions = objectLiteral [
       (''StringEquals'', objectLiteral [
          (''aws:ResourceTag/kubernetes.io/cluster/'' @ clusterName, Str ''owned'')]),
       (''StringLike'', objectLiteral [
          (''aws:ResourceTag/karpenter.sh/nodepool'', Str ''*'')]),
       (''StringEqualsIfExists'', objectLiteral [
          (''aws:RequestTag/eks:eks-cluster-name'', Str clusterName)]),
       (''ForAllValues:StringEquals'', objectLiteral [
          (''aws:TagKeys'', Strs [''eks:eks-cluster-name'', ''karpenter.sh/nodeclaim'', ''Name''])])] \<rparr>"

definition AllowScopedDeletion :: "Aws \<Rightarrow> string \<Rightarrow> PolicyStatement" where
  "AllowScopedDeletion aws clusterName = \<lparr>
     sid = ''AllowScopedDeletion'',
     effect = ALLOW,
     resources = [
       ''arn:'' @ PARTITION aws @ '':ec2:'' @ REGION aws @ '':*:instance/*'',
       ''arn:'' @ PARTITION aws @ '':ec2:'' @ REGION aws @ '':*:launch-template/*''],
     actions = [''ec2:TerminateInstances'', ''ec2:DeleteLaunchTemplate''],
     conditions = objectLiteral [
       (''StringEquals'', objectLiteral [
          (''aws:ResourceTag/kubernetes.io/cluster/'' @ clusterName, Str ''owned'')]),
       (''StringLike'', objectLiteral [
          (''aws:ResourceTag/karpenter.sh/nodepool'', Str ''*'')])] \<rparr>"

definition AllowRegionalReadActions :: "Aws \<Rightarrow> PolicyStatement" where
  "AllowRegionalReadActions aws = \<lparr>
     sid = ''AllowRegionalReadActions'',
     effect = ALLOW,
     resources = [''*''],
     actions = [
       ''ec2:DescribeCapacityReservations'',
       ''ec2:DescribeImages'',
       ''ec2:DescribeInstances'',
       ''ec2:DescribeInstanceTypeOfferings'',
       ''ec2:DescribeInstanceTypes'',
       ''ec2:DescribeLaunchTemplates'',
       ''ec2:DescribeSecurityGroups'',
       ''ec2:DescribeSpotPriceHistory'',
       ''ec2:DescribeSubnets''],
     conditions = objectLiteral [
       (''StringEquals'', objectLiteral [
          (''aws:RequestedRegion'', Str (REGION aws))])] \<rparr>"

definition AllowSSMReadActions :: "Aws \<Rightarrow> PolicyStatement" where
  "AllowSSMReadActions aws = \<lparr>
     sid = ''AllowSSMReadActions'',
     effect = ALLOW,
     resources = [''arn:'' @ PARTITION aws @ '':ssm:'' @ REGION aws @ ''::parameter/aws/service/*''],
     actions = [''ssm:GetParameter''],
     conditions = [] \<rparr>"

definition AllowPricingReadActions :: "PolicyStatement" where
  "AllowPricingReadActions = \<lparr>
     sid = ''AllowPricingReadActions'',
     effect = ALLOW,
     resources = [''*''],
     actions = [''pricing:GetProducts''],
     conditions = [] \<rparr>"

definition AllowInterruptionQueueActions :: "string \<Rightarrow> PolicyStatement" where
  "AllowInterruptionQueueActions karpenterInterruptionQueueArn = \<lparr>
     sid = ''AllowInterruptionQueueActions'',
     effect = ALLOW,
     resources = [karpenterInterruptionQueueArn],
     actions = [''sqs:DeleteMessage'', ''sqs:GetQueueUrl'', ''sqs:ReceiveMessage''],
     conditions = [] \<rparr>"

definition AllowPassingInstanceRole :: "string \<Rightarrow> PolicyStatement" where
  "AllowPassingInstanceRole karpenterNodeRoleArn = \<lparr>
     sid = ''AllowPassingInstanceRole'',
     effect = ALLOW,
     resources = [karpenterNodeRoleArn],
     actions = [''iam:PassRole''],
     conditions = objectLiteral [
       (''StringEquals'', objectLiteral [
          (''iam:PassedToService'', Strs [''ec2.amazonaws.com'', ''ec2.amazonaws.com.cn''])])] \<rparr>"

definition AllowScopedInstanceProfileCreationActions :: "Aws \<Rightarrow> string \<Rightarrow> PolicyStatement" where
  "AllowScopedInstanceProfileCreationActions aws clusterName = \<lparr>
     sid = ''AllowScopedInstanceProfileCreationActions'',
     effect = ALLOW,
     resources = [''arn:'' @ PARTITION aws @ '':iam::'' @ ACCOUNT_ID aws @ '':instance-profile/*''],
     actions = [''iam:CreateInstanceProfile''],
     conditions = objectLiteral [
       (''StringEquals'', objectLiteral [
          (''aws:RequestTag/kubernetes.io/cluster/'' @ clusterName, Str ''owned''),
          (''aws:RequestTag/eks:eks-cluster-name'', Str clusterName),
          (''aws:RequestTag/topology.kubernetes.io/region'', Str (REGION aws))]),
       (''StringLike'', objectLiteral [
          (''aws:RequestTag/karpenter.k8s.aws/ec2nodeclass'', Str ''*'')])] \<rparr>"

definition AllowScopedInstanceProfileTagActions :: "Aws \<Rightarrow> string \<Rightarrow> PolicyStatement" where
  "AllowScopedInstanceProfileTagActions aws clusterName = \<lparr>
     sid = ''AllowScopedInstanceProfileTagActions'',
     effect = ALLOW,
     resources = [''arn:'' @ PARTITION aws @ '':iam::'' @ ACCOUNT_ID aws @ '':instance-profile/*''],
     actions = [''iam:TagInstanceProfile''],
     conditions = objectLiteral [
       (''StringEquals'', objectLiteral [
          (''aws:ResourceTag/kubernetes.io/cluster/'' @ clusterName, Str ''owned''),
          (''aws:ResourceTag/topology.kubernetes.io/region'', Str (REGION aws)),
          (''aws:RequestTag/kubernetes.io/cluster/'' @ clusterName, Str ''owned''),
          (''aws:RequestTag/eks:eks-cluster-name'', Str clusterName),
          (''aws:RequestTag/topology.kubernetes.io/region'', Str (REGION aws))]),
       (''StringLike'', objectLiteral [
          (''aws:ResourceTag/karpenter.k8s.aws/ec2nodeclass'', Str ''*''),
          (''aws:RequestTag/karpenter.k8s.aws/ec2nodeclass'', Str ''*'')])] \<rparr>"

definition AllowScopedInstanceProfileActions :: "Aws \<Rightarrow> string \<Rightarrow> PolicyStatement" where
  "AllowScopedInstanceProfileActions aws clusterName = \<lparr>
     sid = ''AllowScopedInstanceProfileActions'',
     effect = ALLOW,
     resources = [''arn:'' @ PARTITION aws @ '':iam::'' @ ACCOUNT_ID aws @ '':instance-profile/*''],
     actions = [
       ''iam:AddRoleToInstanceProfile'',
       ''iam:RemoveRoleFromInstanceProfile'',
       ''iam:DeleteInstanceProfile''],
     conditions = objectLiteral [
       (''StringEquals'', objectLiteral [
          (''aws:ResourceTag/kubernetes.io/cluster/'' @ clusterName, Str ''owned''),
          (''aws:ResourceTag/topology.kubernetes.io/region'', Str (REGION aws))]),
       (''StringLike'', objectLiteral [
          (''aws:ResourceTag/karpenter.k8s.aws/ec2nodeclass'', Str ''*'')])] \<rparr>"

definition AllowInstanceProfileReadActions :: "Aws \<Rightarrow> PolicyStatement" where
  "AllowInstanceProfileReadActions aws = \<lparr>
     sid = ''AllowInstanceProfileReadActions'',
     effect = ALLOW,
     resources = [''arn:'' @ PARTITION aws @ '':iam::'' @ ACCOUNT_ID aws @ '':instance-profile/*''],
     actions = [''iam:GetInstanceProfile''],
     conditions = [] \<rparr>"

definition AllowAPIServerEndpointDiscovery :: "Aws \<Rightarrow> string \<Rightarrow> PolicyStatement" where
  "AllowAPIServerEndpointDiscovery aws clusterName = \<lparr>
     sid = ''AllowAPIServerEndpointDiscovery'',
     effect = ALLOW,
     resources = [''arn:'' @ PARTITION aws @ '':eks:'' @ REGION aws @ '':'' @ ACCOUNT_ID aws
                    @ '':cluster/'' @ clusterName],
     actions = [''eks:DescribeCluster''],
     conditions = [] \<rparr>"

record KarpenterControllerPolicyProps =
  clusterName :: string
  karpenterInterruptionQueueArn :: string
  karpenterNodeRoleArn :: string

text \<open>
  The properties that the constructor passes to \<^verbatim>\<open>new iam.ManagedPolicy\<close>: the name, the
  description and the sixteen statements, built from the three strings of \<^verbatim>\<open>props\<close>.
\<close>

definition managedPolicyProps :: "Aws \<Rightarrow> KarpenterControllerPolicyProps \<Rightarrow> ManagedPolicy" where
  "managedPolicyProps aws props =
     \<lparr> managedPolicyName = ''KarpenterControllerPolicy-'' @ clusterName props,
       description = ''IAM policy for Karpenter controller in cluster '' @ clusterName props,
       statements = [
         AllowScopedEC2InstanceAccessActions aws,
         AllowScopedEC2LaunchTemplateAccessActions aws (clusterName props),
         AllowScopedEC2InstanceActionsWithTags aws (clusterName props),
         AllowScopedResourceCreationTagging aws (clusterName props),
         AllowScopedResourceTagging aws (clusterName props),
         AllowScopedDeletion aws (clusterName props),
         AllowRegionalReadActions aws,
         AllowSSMReadActions aws,
         AllowPricingReadActions,
         AllowInterruptionQueueActions (karpenterInterruptionQueueArn props),
         AllowPassingInstanceRole (karpenterNodeRoleArn props),
         AllowScopedInstanceProfileCreationActions aws (clusterName props),
         AllowScopedInstanceProfileTagActions aws (clusterName props),
         AllowScopedInstanceProfileActions aws (clusterName props),
         AllowInstanceProfileReadActions aws,
         AllowAPIServerEndpointDiscovery aws (clusterName props)] \<rparr>"

text \<open>
  The specification's name for the policy assembler: the statement sequence of the
  managed policy that the constructor builds from the three strings.
\<close>

definition buildControllerPolicy :: "Aws \<Rightarrow> string \<Rightarrow> string \<Rightarrow> string \<Rightarrow> PolicyStatement list" where
  "buildControllerPolicy aws clusterId interruptionQueueArn nodeRoleArn =
     statements (managedPolicyProps aws
       \<lparr> clusterName = clusterId,
         karpenterInterruptionQueueArn = interruptionQueueArn,
         karpenterNodeRoleArn = nodeRoleArn \<rparr>)"

text \<open>The statement of a policy with a given \<^verbatim>\<open>sid\<close> (the first one, if several).\<close>

definition statementWithSid :: "string \<Rightarrow> PolicyStatement list \<Rightarrow> PolicyStatement option" where
  "statementWithSid s stmts = find (\<lambda>st. sid st = s) stmts"

text \<open>The value that a condition object requires for a key under an operator.\<close>

definition conditionValue :: "Conditions \<Rightarrow> string \<Rightarrow> string \<Rightarrow> ConditionValue option" where
  "conditionValue conds operator key =
     (case getProperty conds operator of None \<Rightarrow> None | Some m \<Rightarrow> getProperty m key)"

definition demoAws :: Aws where
  "demoAws = \<lparr> PARTITION = ''aws'', REGION = ''us-west-2'', ACCOUNT_ID = ''123'' \<rparr>"

subsection \<open>The constructor, its scope and the library\<close>

text \<open>
  The constructor of \<^verbatim>\<open>KarpenterControllerPolicy\<close> has three statements:
  \<^verbatim>\<open>super(scope, id)\<close>, the destructuring of \<^verbatim>\<open>props\<close>, and the assignment of
  \<^verbatim>\<open>new iam.ManagedPolicy(this, 'Policy', {...})\<close> to \<^verbatim>\<open>this.managedPolicy\<close>. It has no
  branch and no \<^verbatim>\<open>throw\<close> of its own, but the two constructors that it calls belong to
  the CDK library, which is not part of the repository. They are parameters of the
  model: each takes the scope, the identifier and the state of the library (its
  construct tree), and either throws or returns the new state, the constructor of
  \<^verbatim>\<open>Construct\<close> together with the new construct.
\<close>

datatype LibraryError = Thrown string

record ('c, 'w) Library =
  newConstruct :: "'c \<Rightarrow> string \<Rightarrow> 'w \<Rightarrow> LibraryError + 'c \<times> 'w"
  newManagedPolicy :: "'c \<Rightarrow> string \<Rightarrow> ManagedPolicy \<Rightarrow> 'w \<Rightarrow> LibraryError + 'w"

text \<open>The constructed object: the construct itself and its field \<^verbatim>\<open>managedPolicy\<close>.\<close>

record 'c KarpenterControllerPolicyObject =
  construct :: 'c
  managedPolicy :: ManagedPolicy

definition KarpenterControllerPolicy ::
  "('c, 'w) Library \<Rightarrow> Aws \<Rightarrow> 'c \<Rightarrow> string \<Rightarrow> KarpenterControllerPolicyProps \<Rightarrow> 'w
     \<Rightarrow> LibraryError + 'c KarpenterControllerPolicyObject \<times> 'w" where
  "KarpenterControllerPolicy library aws scope i props w =
     (case newConstruct library scope i w of
        Inl e \<Rightarrow> Inl e
      | Inr (this, w1) \<Rightarrow>
          (case newManagedPolicy library this ''Policy'' (managedPolicyProps aws props) w1 of
             Inl e \<Rightarrow> Inl e
           | Inr w2 \<Rightarrow>
               Inr (\<lparr> construct = this, managedPolicy = managedPolicyProps aws props \<rparr>, w2)))"

text \<open>
  A library for concrete evaluations, after the CDK. The construct tree is the list of
  the paths of its constructs; of the constructs that a library constructor adds below
  its own, it keeps none. A constructor registers the new construct under its scope and
  throws if the scope has a child of that identifier already. The constructor of the
  managed policy then reads the policy name as a physical name and throws if the name
  holds the marker of a token that the library has not issued; in this library no token
  has been issued.
\<close>

definition addChild :: "string list \<Rightarrow> string \<Rightarrow> string list list
    \<Rightarrow> LibraryError + string list \<times> string list list" where
  "addChild scope i tree =
     (if scope @ [i] \<in> set tree
      then Inl (Thrown (''There is already a Construct with name '' @ i))
      else Inr (scope @ [i], tree @ [scope @ [i]]))"

definition tokenKeyChar :: "char \<Rightarrow> bool" where
  "tokenKeyChar ch =
     (ch \<in> set ''abcdefghijklmnopqrstuvwxyzABCDEFGHIJKLMNOPQRSTUVWXYZ0123456789:._-'')"

text \<open>The key of the first token marker \<^verbatim>\<open>${Token[key]}\<close> of a string.\<close>

fun tokenMarkerKey :: "string \<Rightarrow> string option" where
  "tokenMarkerKey [] = None"
| "tokenMarkerKey (ch # s) =
     (if take 8 (ch # s) = ''${Token[''
         \<and> takeWhile tokenKeyChar (drop 7 s) \<noteq> []
         \<and> take 2 (dropWhile tokenKeyChar (drop 7 s)) = '']}''
      then Some (takeWhile tokenKeyChar (drop 7 s))
      else tokenMarkerKey s)"

definition demoLibrary :: "(string list, string list list) Library" where
  "demoLibrary = \<lparr>
     newConstruct = addChild,
     newManagedPolicy = (\<lambda>scope i props tree.
       case addChild scope i tree of
         Inl e \<Rightarrow> Inl e
       | Inr (this, tree') \<Rightarrow>
           (case tokenMarkerKey (managedPolicyName props) of
              Some key \<Rightarrow> Inl (Thrown (''Unrecognized token key: '' @ key))
            | None \<Rightarrow> Inr tree')) \<rparr>"


section \<open>The manifest graph (karpenter-stack.ts)\<close>

text \<open>
  A manifest passed to \<^verbatim>\<open>cluster.addManifest\<close> is a JSON document. Its objects are object
  literals, its numbers are integers (\<^verbatim>\<open>0o755\<close> is 493).
\<close>

datatype json =
    JString string
  | JNumber int
  | JBool bool
  | JArray "json list"
  | JObject "(string \<times> json) list"

text \<open>\<^verbatim>\<open>Array.prototype.join\<close> on an array of strings.\<close>

fun join :: "string list \<Rightarrow> string \<Rightarrow> string" where
  "join [] separator = []"
| "join [x] separator = x"
| "join (x # y # ys) separator = x @ separator @ join (y # ys) separator"

text \<open>
  \<^verbatim>\<open>cdk.Fn.base64\<close> does not encode anything in the program: it wraps its argument in the
  CloudFormation intrinsic \<^verbatim>\<open>Fn::Base64\<close>, which the deployment evaluates.
\<close>

definition Fn_base64 :: "string \<Rightarrow> json" where
  "Fn_base64 s = JObject (objectLiteral [(''Fn::Base64'', JString s)])"

text \<open>
  What the manifests read from their surroundings: \<^verbatim>\<open>cluster.clusterName\<close>,
  \<^verbatim>\<open>cluster.clusterEndpoint\<close>, \<^verbatim>\<open>this.region\<close>, and the attributes of the resources that the
  constructor creates before the manifests: \<^verbatim>\<open>karpenterControllerRole.roleArn\<close>,
  \<^verbatim>\<open>karpenterQueue.queueName\<close> and \<^verbatim>\<open>this.karpenterNodeRole.roleName\<close>. All six are
  strings that the deployment resolves; the builder only copies them.
\<close>

record Config =
  clusterName :: string
  clusterEndpoint :: string
  region :: string
  karpenterControllerRoleArn :: string
  karpenterQueueName :: string
  karpenterNodeRoleName :: string

text \<open>
  The eight manifests, in the order of the source, each named by the identifier given to
  \<^verbatim>\<open>addManifest\<close>. The last property of the node class's \<^verbatim>\<open>tags\<close> is written in the source
  as \<^verbatim>\<open>'kubernetes.io/cluster/' + cluster.clusterName: 'owned'\<close>, without the brackets of a
  computed key; it is modelled as the computed key it stands for.
\<close>

definition KarpenterNamespaceManifest :: "json" where
  \<open>KarpenterNamespaceManifest =
    JObject (objectLiteral [
      (''apiVersion'', JString ''v1''),
      (''kind'', JString ''Namespace''),
      (''metadata'', JObject (objectLiteral [
        (''name'', JString ''karpenter''),
        (''labels'', JObject (objectLiteral [
          (''app.kubernetes.io/name'', JString ''karpenter'')]))]))])\<close>

definition KarpenterServiceAccountManifest :: "Config \<Rightarrow> json" where
  \<open>KarpenterServiceAccountManifest config =
    JObject (objectLiteral [
      (''apiVersion'', JString ''v1''),
      (''kind'', JString ''ServiceAccount''),
      (''metadata'', JObject (objectLiteral [
        (''name'', JString ''karpenter''),
        (''namespace'', JString ''karpenter''),
        (''annotations'', JObject (objectLiteral [
          (''eks.amazonaws.com/role-arn'', JString (karpenterControllerRoleArn config))]))]))])\<close>

definition KarpenterControllerManifest :: "Config \<Rightarrow> json" where
  \<open>KarpenterControllerManifest config =
    JObject (objectLiteral [
      (''apiVersion'', JString ''v1''),
      (''kind'', JString ''ConfigMap''),
      (''metadata'', JObject (objectLiteral [
        (''name'', JString ''karpenter-install-script''),
        (''namespace'', JString ''karpenter'')])),
      (''data'', JObject (objectLiteral [
        (''install.sh'', JString (''#!/bin/bash\<newline>'' @
          ''set -e\<newline>'' @
          ''\<newline>'' @
          ''echo "Installing Karpenter 1.6.1..."\<newline>'' @
          ''\<newline>'' @
          ''# Install required tools\<newline>'' @
          ''yum update -y\<newline>'' @
          ''yum install -y curl tar gzip\<newline>'' @
          ''\<newline>'' @
          ''# Install kubectl\<newline>'' @
          ''curl -LO "https://dl.k8s.io/release/v1.28.0/bin/linux/amd64/kubectl"\<newline>'' @
          ''chmod +x kubectl\<newline>'' @
          ''mv kubectl /usr/local/bin/\<newline>'' @
          ''\<newline>'' @
          ''# Install Helm\<newline>'' @
          ''curl -fsSL -o get_helm.sh https://raw.githubusercontent.com/helm/helm/main/scripts/get-helm-3\<newline>'' @
          ''chmod 700 get_helm.sh\<newline>'' @
          ''./get_helm.sh\<newline>'' @
          ''\<newline>'' @
          ''# Configure kubectl to use the cluster\<newline>'' @
          ''aws eks update-kubeconfig --region $AWS_DEFAULT_REGION --name $CLUSTER_NAME\<newline>'' @
          ''\<newline>'' @
          ''# Authenticate with ECR Public for OCI registry access\<newline>'' @
          ''aws ecr-public get-login-password --region us-east-1 | helm registry login --username AWS --password-stdin public.ecr.aws\<newline>'' @
          ''\<newline>'' @
          ''# Install Karpenter using Helm with OCI registry\<newline>'' @
          ''helm upgrade --install karpenter oci://public.ecr.aws/karpenter/karpenter '' @ [CHR 0x5C] @ ''\<newline>'' @
          ''  --version 1.6.1 '' @ [CHR 0x5C] @ ''\<newline>'' @
          ''  --namespace karpenter '' @ [CHR 0x5C] @ ''\<newline>'' @
          ''  --create-namespace '' @ [CHR 0x5C] @ ''\<newline>'' @
          ''  --set serviceAccount.create=false '' @ [CHR 0x5C] @ ''\<newline>'' @
          ''  --set serviceAccount.name=karpenter '' @ [CHR 0x5C] @ ''\<newline>'' @
          ''  --set settings.clusterName=$CLUSTER_NAME '' @ [CHR 0x5C] @ ''\<newline>'' @
          ''  --set settings.clusterEndpoint=$CLUSTER_ENDPOINT '' @ [CHR 0x5C] @ ''\<newline>'' @
          ''  --set settings.interruptionQueue=$INTERRUPTION_QUEUE '' @ [CHR 0x5C] @ ''\<newline>'' @
          ''  --set settings.featureGates.drift=true '' @ [CHR 0x5C] @ ''\<newline>'' @
          ''  --set settings.featureGates.spotToSpotConsolidation=true '' @ [CHR 0x5C] @ ''\<newline>'' @
          ''  --set controller.resources.requests.cpu=1 '' @ [CHR 0x5C] @ ''\<newline>'' @
          ''  --set controller.resources.requests.memory=1Gi '' @ [CHR 0x5C] @ ''\<newline>'' @
          ''  --set controller.resources.limits.cpu=1 '' @ [CHR 0x5C] @ ''\<newline>'' @
          ''  --set controller.resources.limits.memory=1Gi '' @ [CHR 0x5C] @ ''\<newline>'' @
          ''  --set webhook.enabled=true '' @ [CHR 0x5C] @ ''\<newline>'' @
          ''  --set webhook.port=8443 '' @ [CHR 0x5C] @ ''\<newline>'' @
          ''  --set logLevel=info '' @ [CHR 0x5C] @ ''\<newline>'' @
          ''  --set batchMaxDuration=10s '' @ [CHR 0x5C] @ ''\<newline>'' @
          ''  --set batchIdleDuration=1s '' @ [CHR 0x5C] @ ''\<newline>'' @
          ''  --wait\<newline>'' @
          ''\<newline>'' @
          ''echo "Karpenter installation completed successfully!"\<newline>'' @
          ''\<newline>'' @
          ''# Verify installation\<newline>'' @
          ''kubectl get pods -n karpenter\<newline>'' @
          ''kubectl get deployment -n karpenter\<newline>''))]))])\<close>

definition KarpenterInstallerRoleManifest :: "json" where
  \<open>KarpenterInstallerRoleManifest =
    JObject (objectLiteral [
      (''apiVersion'', JString ''rbac.authorization.k8s.io/v1''),
      (''kind'', JString ''ClusterRole''),
      (''metadata'', JObject (objectLiteral [
        (''name'', JString ''karpenter-installer'')])),
      (''rules'', JArray [
        JObject (objectLiteral [
          (''apiGroups'', JArray [JString ''*'']),
          (''resources'', JArray [JString ''*'']),
          (''verbs'', JArray [JString ''*''])])])])\<close>

definition KarpenterInstallerRoleBindingManifest :: "json" where
  \<open>KarpenterInstallerRoleBindingManifest =
    JObject (objectLiteral [
      (''apiVersion'', JString ''rbac.authorization.k8s.io/v1''),
      (''kind'', JString ''ClusterRoleBinding''),
      (''metadata'', JObject (objectLiteral [
        (''name'', JString ''karpenter-installer'')])),
      (''roleRef'', JObject (objectLiteral [
        (''apiGroup'', JString ''rbac.authorization.k8s.io''),
        (''kind'', JString ''ClusterRole''),
        (''name'', JString ''karpenter-installer'')])),
      (''subjects'', JArray [
        JObject (objectLiteral [
          (''kind'', JString ''ServiceAccount''),
          (''name'', JString ''karpenter''),
          (''namespace'', JString ''karpenter'')])])])\<close>

definition KarpenterInstallJobManifest :: "Config \<Rightarrow> json" where
  \<open>KarpenterInstallJobManifest config =
    JObject (objectLiteral [
      (''apiVersion'', JString ''batch/v1''),
      (''kind'', JString ''Job''),
      (''metadata'', JObject (objectLiteral [
        (''name'', JString ''karpenter-installer''),
        (''namespace'', JString ''karpenter'')])),
      (''spec'', JObject (objectLiteral [
        (''template'', JObject (objectLiteral [
          (''spec'', JObject (objectLiteral [
            (''serviceAccountName'', JString ''karpenter''),
            (''restartPolicy'', JString ''OnFailure''),
            (''containers'', JArray [
              JObject (objectLiteral [
                (''name'', JString ''installer''),
                (''image'', JString ''amazon/aws-cli:latest''),
                (''command'', JArray [JString ''/bin/bash'']),
                (''args'', JArray [JString ''/scripts/install.sh'']),
                (''volumeMounts'', JArray [
                  JObject (objectLiteral [
                    (''name'', JString ''install-script''),
                    (''mountPath'', JString ''/scripts'')])]),
                (''env'', JArray [
                  JObject (objectLiteral [
                    (''name'', JString ''AWS_DEFAULT_REGION''),
                    (''value'', JString (region config))]),
                  JObject (objectLiteral [
                    (''name'', JString ''CLUSTER_NAME''),
                    (''value'', JString (clusterName config))]),
                  JObject (objectLiteral [
                    (''name'', JString ''CLUSTER_ENDPOINT''),
                    (''value'', JString (clusterEndpoint config))]),
                  JObject (objectLiteral [
                    (''name'', JString ''INTERRUPTION_QUEUE''),
                    (''value'', JString (karpenterQueueName config))])])])]),
            (''volumes'', JArray [
              JObject (objectLiteral [
                (''name'', JString ''install-script''),
                (''configMap'', JObject (objectLiteral [
                  (''name'', JString ''karpenter-install-script''),
                  (''defaultMode'', JNumber 493)]))])])]))])),
        (''backoffLimit'', JNumber 3)]))])\<close>

definition DefaultNodePoolManifest :: "json" where
  \<open>DefaultNodePoolManifest =
    JObject (objectLiteral [
      (''apiVersion'', JString ''karpenter.sh/v1beta1''),
      (''kind'', JString ''NodePool''),
      (''metadata'', JObject (objectLiteral [
        (''name'', JString ''default''),
        (''namespace'', JString ''karpenter'')])),
      (''spec'', JObject (objectLiteral [
        (''template'', JObject (objectLiteral [
          (''metadata'', JObject (objectLiteral [
            (''labels'', JObject (objectLiteral [
              (''node-type'', JString ''karpenter'')])),
            (''annotations'', JObject (objectLiteral [
              (''cluster-autoscaler.kubernetes.io/safe-to-evict'', JString ''true'')]))])),
          (''spec'', JObject (objectLiteral [
            (''requirements'', JArray [
              JObject (objectLiteral [
                (''key'', JString ''kubernetes.io/arch''),
                (''operator'', JString ''In''),
                (''values'', JArray [JString ''amd64''])]),
              JObject (objectLiteral [
                (''key'', JString ''kubernetes.io/os''),
                (''operator'', JString ''In''),
                (''values'', JArray [JString ''linux''])]),
              JObject (objectLiteral [
                (''key'', JString ''karpenter.sh/capacity-type''),
                (''operator'', JString ''In''),
                (''values'', JArray [JString ''spot'', JString ''on-demand''])]),
              JObject (objectLiteral [
                (''key'', JString ''node.kubernetes.io/instance-type''),
                (''operator'', JString ''In''),
                (''values'', JArray [
                  JString ''m5.large'',
                  JString ''m5.xlarge'',
                  JString ''m5.2xlarge'',
                  JString ''m5.4xlarge'',
                  JString ''c5.large'',
                  JString ''c5.xlarge'',
                  JString ''c5.2xlarge'',
                  JString ''c5.4xlarge''])])]),
            (''nodeClassRef'', JObject (objectLiteral [
              (''apiVersion'', JString ''karpenter.k8s.aws/v1beta1''),
              (''kind'', JString ''EC2NodeClass''),
              (''name'', JString ''default'')])),
            (''taints'', JArray [
              JObject (objectLiteral [
                (''key'', JString ''karpenter.sh/unschedulable''),
                (''value'', JString ''true''),
                (''effect'', JString ''NoSchedule'')])])]))])),
        (''disruption'', JObject (objectLiteral [
          (''consolidationPolicy'', JString ''WhenUnderutilized''),
          (''consolidateAfter'', JString ''30s''),
          (''expireAfter'', JString ''30m'')])),
        (''limits'', JObject (objectLiteral [
          (''cpu'', JString ''1000''),
          (''memory'', JString ''1000Gi'')]))]))])\<close>

definition DefaultNodeClassManifest :: "Config \<Rightarrow> json" where
  \<open>DefaultNodeClassManifest config =
    JObject (objectLiteral [
      (''apiVersion'', JString ''karpenter.k8s.aws/v1beta1''),
      (''kind'', JString ''EC2NodeClass''),
      (''metadata'', JObject (objectLiteral [
        (''name'', JString ''default''),
        (''namespace'', JString ''karpenter'')])),
      (''spec'', JObject (objectLiteral [
        (''amiFamily'', JString ''AL2''),
        (''subnetSelectorTerms'', JArray [
          JObject (objectLiteral [
            (''tags'', JObject (objectLiteral [
              (''karpenter.sh/discovery'', JString (clusterName config))]))])]),
        (''securityGroupSelectorTerms'', JArray [
          JObject (objectLiteral [
            (''tags'', JObject (objectLiteral [
              (''karpenter.sh/discovery'', JString (clusterName config))]))])]),
        (''instanceStorePolicy'', JString ''RAID0''),
        (''userData'', Fn_base64 (join [
            ''#!/bin/bash'',
            ''/etc/eks/bootstrap.sh '' @ clusterName config,
            ''echo "net.ipv4.conf.all.route_localnet = 1" >> /etc/sysctl.conf'',
            ''sysctl -p /etc/sysctl.conf''] ''\<newline>'')),
        (''blockDeviceMappings'', JArray [
          JObject (objectLiteral [
            (''deviceName'', JString ''/dev/xvda''),
            (''ebs'', JObject (objectLiteral [
              (''volumeSize'', JString ''100Gi''),
              (''volumeType'', JString ''gp3''),
              (''iops'', JNumber 3000),
              (''throughput'', JNumber 125),
              (''deleteOnTermination'', JBool True),
              (''encrypted'', JBool True)]))])]),
        (''role'', JString (karpenterNodeRoleName config)),
        (''tags'', JObject (objectLiteral [
          (''karpenter.sh/discovery'', JString (clusterName config)),
          (''kubernetes.io/cluster/'' @ clusterName config, JString ''owned'')]))]))])\<close>

text \<open>
  A manifest node of the cluster: the identifier of the construct, the manifest, and the
  constructs recorded by \<^verbatim>\<open>node.addDependency\<close>. A variable of the source that holds the
  construct returned by \<^verbatim>\<open>addManifest\<close> is the node's identifier here. The nodes of a
  cluster are kept in the order of their creation.
\<close>

record ManifestNode =
  nodeId :: string
  body :: json
  dependsOn :: "string list"

definition addManifest :: "string \<Rightarrow> json \<Rightarrow> ManifestNode list \<Rightarrow> ManifestNode list" where
  "addManifest i manifest nodes = nodes @ [\<lparr> nodeId = i, body = manifest, dependsOn = [] \<rparr>]"

text \<open>The dependencies of a construct are a set: adding one twice changes nothing.\<close>

definition addDependency :: "string \<Rightarrow> string \<Rightarrow> ManifestNode list \<Rightarrow> ManifestNode list" where
  "addDependency dependent dependency nodes =
     map (\<lambda>n. if nodeId n = dependent \<and> dependency \<notin> set (dependsOn n)
              then n \<lparr> dependsOn := dependsOn n @ [dependency] \<rparr> else n) nodes"

text \<open>
  The manifest part of the constructor of \<^verbatim>\<open>KarpenterStack\<close>, statement by statement: six
  manifests, three dependencies, two manifests, two dependencies. The IAM roles, the
  queue, the event rules, the subnet tags and the outputs that the constructor also
  creates add no manifest and no dependency between manifests.
\<close>

definition buildDeploymentGraph :: "Config \<Rightarrow> ManifestNode list" where
  "buildDeploymentGraph config =
     (let karpenterNamespace = ''KarpenterNamespace'';
          karpenterServiceAccount = ''KarpenterServiceAccount'';
          karpenterManifests = ''KarpenterController'';
          installerRole = ''KarpenterInstallerRole'';
          installerRoleBinding = ''KarpenterInstallerRoleBinding'';
          karpenterInstallJob = ''KarpenterInstallJob'';
          defaultNodePool = ''DefaultNodePool'';
          defaultNodeClass = ''DefaultNodeClass''
      in fold (\<lambda>statement nodes. statement nodes) [
           addManifest karpenterNamespace KarpenterNamespaceManifest,
           addManifest karpenterServiceAccount (KarpenterServiceAccountManifest config),
           addManifest karpenterManifests (KarpenterControllerManifest config),
           addManifest installerRole KarpenterInstallerRoleManifest,
           addManifest installerRoleBinding KarpenterInstallerRoleBindingManifest,
           addManifest karpenterInstallJob (KarpenterInstallJobManifest config),
           addDependency karpenterServiceAccount karpenterNamespace,
           addDependency karpenterManifests karpenterServiceAccount,
           addDependency karpenterInstallJob karpenterManifests,
           addManifest defaultNodePool DefaultNodePoolManifest,
           addManifest defaultNodeClass (DefaultNodeClassManifest config),
           addDependency defaultNodePool karpenterInstallJob,
           addDependency defaultNodeClass karpenterInstallJob] [])"

text \<open>The \<^verbatim>\<open>kind\<close> of a node is the string property of that name of its manifest.\<close>

definition kind :: "ManifestNode \<Rightarrow> string option" where
  "kind n = (case body n of
               JObject properties \<Rightarrow>
                 (case getProperty properties ''kind'' of Some (JString k) \<Rightarrow> Some k | _ \<Rightarrow> None)
             | _ \<Rightarrow> None)"

definition nodesOfKind :: "string \<Rightarrow> ManifestNode list \<Rightarrow> ManifestNode list" where
  "nodesOfKind k nodes = filter (\<lambda>n. kind n = Some k) nodes"

text \<open>The dependsOn relation of a graph: an edge from each node to each of its dependencies.\<close>

definition dependsOnEdges :: "ManifestNode list \<Rightarrow> (string \<times> string) list" where
  "dependsOnEdges nodes = concat (map (\<lambda>n. map (\<lambda>d. (nodeId n, d)) (dependsOn n)) nodes)"

definition demoConfig :: Config where
  "demoConfig = \<lparr>
     clusterName = ''demo'',
     clusterEndpoint = ''https://demo.gr7.us-west-2.eks.amazonaws.com'',
     region = ''us-west-2'',
     karpenterControllerRoleArn = ''arn:aws:iam::123:role/KarpenterControllerRole-demo'',
     karpenterQueueName = ''Karpenter-demo'',
     karpenterNodeRoleName = ''KarpenterNodeInstanceRole-demo'' \<rparr>"


section \<open>The script template (node-group-userdata.sh) and its rendering\<close>

text \<open>
  The one template of the repository: the user-data script that the Terraform data
  source \<^verbatim>\<open>template_file.user_data\<close> reads with \<^verbatim>\<open>file("${path.module}/node-group-userdata.sh")\<close>
  and renders with \<^verbatim>\<open>vars = { CLUSTER_NAME = var.cluster_name }\<close>. The text is the file's,
  character by character; a backslash is written \<^verbatim>\<open>CHR 0x5C\<close>.
\<close>

definition node_group_userdata_sh :: string where
  \<open>node_group_userdata_sh =
     ''#!/bin/bash\<newline>'' @
     ''\<newline>'' @
     ''# EKS Node Group User Data Script for Podman/Rootless Container Support\<newline>'' @
     ''# This script configures EKS nodes to support rootless container builds\<newline>'' @
     ''\<newline>'' @
     ''set -e\<newline>'' @
     ''\<newline>'' @
     ''# Enable user namespaces (required for rootless containers)\<newline>'' @
     ''echo "Enabling user namespaces..."\<newline>'' @
     ''echo 'user.max_user_namespaces = 65536' >> /etc/sysctl.conf\<newline>'' @
     ''echo 'user.max_pid_namespaces = 65536' >> /etc/sysctl.conf\<newline>'' @
     ''echo 'user.max_net_namespaces = 65536' >> /etc/sysctl.conf\<newline>'' @
     ''sysctl -p\<newline>'' @
     ''\<newline>'' @
     ''# Install fuse-overlayfs (required for rootless overlay storage)\<newline>'' @
     ''echo "Installing fuse-overlayfs..."\<newline>'' @
     ''yum update -y\<newline>'' @
     ''yum install -y fuse-overlayfs\<newline>'' @
     ''\<newline>'' @
     ''# Install crun (modern container runtime with better rootless support)\<newline>'' @
     ''echo "Installing crun..."\<newline>'' @
     ''CRUN_VERSION="1.8.7"\<newline>'' @
     ''curl -L "https://github.com/containers/crun/releases/download/${CRUN_VERSION}/crun-${CRUN_VERSION}-linux-amd64" '' @ [CHR 0x5C] @ ''\<newline>'' @
     ''    -o /usr/local/bin/crun\<newline>'' @
     ''chmod +x /usr/local/bin/crun\<newline>'' @
     ''\<newline>'' @
     ''# Configure containerd to use crun\<newline>'' @
     ''echo "Configuring containerd for crun..."\<newline>'' @
     ''mkdir -p /etc/containerd/\<newline>'' @
     ''cat > /etc/containerd/config.toml << 'EOF'\<newline>'' @
     ''version = 2\<newline>'' @
     ''\<newline>'' @
     ''[plugins]\<newline>'' @
     ''  [plugins."io.containerd.grpc.v1.cri"]\<newline>'' @
     ''    [plugins."io.containerd.grpc.v1.cri".containerd]\<newline>'' @
     ''      [plugins."io.containerd.grpc.v1.cri".containerd.runtimes]\<newline>'' @
     ''        [plugins."io.containerd.grpc.v1.cri".containerd.runtimes.runc]\<newline>'' @
     ''          runtime_type = "io.containerd.runc.v2"\<newline>'' @
     ''          [plugins."io.containerd.grpc.v1.cri".containerd.runtimes.runc.options]\<newline>'' @
     ''            BinaryName = "/usr/local/bin/crun"\<newline>'' @
     ''        [plugins."io.containerd.grpc.v1.cri".containerd.runtimes.crun]\<newline>'' @
     ''          runtime_type = "io.containerd.runc.v2"\<newline>'' @
     ''          [plugins."io.containerd.grpc.v1.cri".containerd.runtimes.crun.options]\<newline>'' @
     ''            BinaryName = "/usr/local/bin/crun"\<newline>'' @
     ''EOF\<newline>'' @
     ''\<newline>'' @
     ''# Set up subuid/subgid ranges for rootless containers\<newline>'' @
     ''echo "Setting up subuid/subgid ranges..."\<newline>'' @
     ''echo 'ec2-user:100000:65536' >> /etc/subuid\<newline>'' @
     ''echo 'ec2-user:100000:65536' >> /etc/subgid\<newline>'' @
     ''\<newline>'' @
     ''# Create systemd user directory for rootless services\<newline>'' @
     ''echo "Setting up systemd user directories..."\<newline>'' @
     ''mkdir -p /etc/systemd/user\<newline>'' @
     ''mkdir -p /var/lib/systemd/linger\<newline>'' @
     ''\<newline>'' @
     ''# Enable lingering for ec2-user (allows user services to run without login)\<newline>'' @
     ''loginctl enable-linger ec2-user || true\<newline>'' @
     ''\<newline>'' @
     ''# Install additional tools for container builds\<newline>'' @
     ''echo "Installing build tools..."\<newline>'' @
     ''yum install -y '' @ [CHR 0x5C] @ ''\<newline>'' @
     ''    git '' @ [CHR 0x5C] @ ''\<newline>'' @
     ''    tar '' @ [CHR 0x5C] @ ''\<newline>'' @
     ''    gzip '' @ [CHR 0x5C] @ ''\<newline>'' @
     ''    which '' @ [CHR 0x5C] @ ''\<newline>'' @
     ''    curl '' @ [CHR 0x5C] @ ''\<newline>'' @
     ''    wget\<newline>'' @
     ''\<newline>'' @
     ''# Configure kernel parameters for better container performance\<newline>'' @
     ''echo "Configuring kernel parameters..."\<newline>'' @
     ''cat >> /etc/sysctl.conf << 'EOF'\<newline>'' @
     ''# Container optimizations\<newline>'' @
     ''fs.inotify.max_user_watches = 524288\<newline>'' @
     ''fs.inotify.max_user_instances = 512\<newline>'' @
     ''kernel.keys.maxkeys = 2000\<newline>'' @
     ''kernel.keys.maxbytes = 2000000\<newline>'' @
     ''EOF\<newline>'' @
     ''sysctl -p\<newline>'' @
     ''\<newline>'' @
     ''# Set up storage optimization\<newline>'' @
     ''echo "Optimizing storage for container builds..."\<newline>'' @
     ''# Create dedicated partition for container storage if additional EBS volume is attached\<newline>'' @
     ''if [ -b /dev/nvme1n1 ]; then\<newline>'' @
     ''    mkfs.ext4 /dev/nvme1n1\<newline>'' @
     ''    mkdir -p /var/lib/containers\<newline>'' @
     ''    mount /dev/nvme1n1 /var/lib/containers\<newline>'' @
     ''    echo '/dev/nvme1n1 /var/lib/containers ext4 defaults,noatime 0 2' >> /etc/fstab\<newline>'' @
     ''    chmod 755 /var/lib/containers\<newline>'' @
     ''fi\<newline>'' @
     ''\<newline>'' @
     ''# Restart containerd to pick up new configuration\<newline>'' @
     ''systemctl restart containerd\<newline>'' @
     ''\<newline>'' @
     ''# Label the node for podman workloads\<newline>'' @
     ''echo "Node setup complete for rootless container builds"\<newline>'' @
     ''\<newline>'' @
     ''# Bootstrap EKS node (this must be last)\<newline>'' @
     ''/etc/eks/bootstrap.sh ${CLUSTER_NAME} '' @ [CHR 0x5C] @ ''\<newline>'' @
     ''    --container-runtime containerd '' @ [CHR 0x5C] @ ''\<newline>'' @
     ''    --kubelet-extra-args '--node-labels=node-type=builder,podman-enabled=true'' @ [CHR 0x27]\<close>

datatype TemplateId = NodeGroupUserdata

definition templateText :: "TemplateId \<Rightarrow> string" where
  "templateText t = (case t of NodeGroupUserdata \<Rightarrow> node_group_userdata_sh)"

text \<open>The variables that the repository passes to the template, for a cluster name.\<close>

definition user_data_vars :: "string \<Rightarrow> (string \<rightharpoonup> string)" where
  "user_data_vars cluster_name = [''CLUSTER_NAME'' \<mapsto> cluster_name]"

datatype RenderError = MissingVariable string

datatype Part = Chr char | Placeholder string

text \<open>
  Modelled from the spec: \<^verbatim>\<open>renderTemplate\<close> is the rendering function of the template
  engine, which is not in the repository. The spec gives its contract: pure string
  substitution, which fails with \<^verbatim>\<open>MissingVariable\<close> if a referenced placeholder has no
  supplied value. A placeholder is written \<^verbatim>\<open>${NAME}\<close>, as in the template above: the
  name runs from \<^verbatim>\<open>${\<close> to the next \<^verbatim>\<open>}\<close>. A \<^verbatim>\<open>${\<close> that is never closed is ordinary text.
  The template is read once from left to right, so the first placeholder without a value
  is the one reported, and a substituted value is not read again.
\<close>

fun scan :: "string option \<Rightarrow> string \<Rightarrow> Part list" where
  "scan None [] = []"
| "scan None (c # cs) =
     (if c = CHR ''$''
      then (case cs of
              d # ds \<Rightarrow> if d = CHR ''{'' then scan (Some []) ds else Chr c # scan None cs
            | [] \<Rightarrow> [Chr c])
      else Chr c # scan None cs)"
| "scan (Some name) [] = map Chr (''${'' @ name)"
| "scan (Some name) (c # cs) =
     (if c = CHR ''}'' then Placeholder name # scan None cs else scan (Some (name @ [c])) cs)"

definition parseTemplate :: "string \<Rightarrow> Part list" where
  "parseTemplate text = scan None text"

fun placeholdersOf :: "Part list \<Rightarrow> string list" where
  "placeholdersOf [] = []"
| "placeholdersOf (Chr c # ps) = placeholdersOf ps"
| "placeholdersOf (Placeholder name # ps) = name # placeholdersOf ps"

definition placeholders :: "string \<Rightarrow> string list" where
  "placeholders text = placeholdersOf (parseTemplate text)"

fun renderParts :: "(string \<rightharpoonup> string) \<Rightarrow> Part list \<Rightarrow> RenderError + string" where
  "renderParts variables [] = Inr []"
| "renderParts variables (Chr c # ps) = map_sum id ((#) c) (renderParts variables ps)"
| "renderParts variables (Placeholder name # ps) =
     (case variables name of
        None \<Rightarrow> Inl (MissingVariable name)
      | Some v \<Rightarrow> map_sum id ((@) v) (renderParts variables ps))"

definition substitute :: "string \<Rightarrow> (string \<rightharpoonup> string) \<Rightarrow> RenderError + string" where
  "substitute text variables = renderParts variables (parseTemplate text)"

text \<open>
  Modelled from the spec: the contract \<^verbatim>\<open>renderTemplate(templateId, variables) -> text\<close>
  of the script emitter, for the template engine that the repository does not contain.
\<close>

definition renderTemplate :: "TemplateId \<Rightarrow> (string \<rightharpoonup> string) \<Rightarrow> RenderError + string" where
  "renderTemplate templateId variables = substitute (templateText templateId) variables"


section \<open>Properties of the controller policy\<close>

text \<open>The statement sequence, for every input.\<close>

lemmas statement_defs =
  AllowScopedEC2InstanceAccessActions_def AllowScopedEC2LaunchTemplateAccessActions_def
  AllowScopedEC2InstanceActionsWithTags_def AllowScopedResourceCreationTagging_def
  AllowScopedResourceTagging_def AllowScopedDeletion_def AllowRegionalReadActions_def
  AllowSSMReadActions_def AllowPricingReadActions_def AllowInterruptionQueueActions_def
  AllowPassingInstanceRole_def AllowScopedInstanceProfileCreationActions_def
  AllowScopedInstanceProfileTagActions_def AllowScopedInstanceProfileActions_def
  AllowInstanceProfileReadActions_def AllowAPIServerEndpointDiscovery_def

lemma buildControllerPolicy_statements:
  "buildControllerPolicy aws c q r = [
     AllowScopedEC2InstanceAccessActions aws,
     AllowScopedEC2LaunchTemplateAccessActions aws c,
     AllowScopedEC2InstanceActionsWithTags aws c,
     AllowScopedResourceCreationTagging aws c,
     AllowScopedResourceTagging aws c,
     AllowScopedDeletion aws c,
     AllowRegionalReadActions aws,
     AllowSSMReadActions aws,
     AllowPricingReadActions,
     AllowInterruptionQueueActions q,
     AllowPassingInstanceRole r,
     AllowScopedInstanceProfileCreationActions aws c,
     AllowScopedInstanceProfileTagActions aws c,
     AllowScopedInstanceProfileActions aws c,
     AllowInstanceProfileReadActions aws,
     AllowAPIServerEndpointDiscovery aws c]"
  by (simp add: buildControllerPolicy_def managedPolicyProps_def)

lemma sid_statements:
  "map sid (buildControllerPolicy aws c q r) = [
     ''AllowScopedEC2InstanceAccessActions'',
     ''AllowScopedEC2LaunchTemplateAccessActions'',
     ''AllowScopedEC2InstanceActionsWithTags'',
     ''AllowScopedResourceCreationTagging'',
     ''AllowScopedResourceTagging'',
     ''AllowScopedDeletion'',
     ''AllowRegionalReadActions'',
     ''AllowSSMReadActions'',
     ''AllowPricingReadActions'',
     ''AllowInterruptionQueueActions'',
     ''AllowPassingInstanceRole'',
     ''AllowScopedInstanceProfileCreationActions'',
     ''AllowScopedInstanceProfileTagActions'',
     ''AllowScopedInstanceProfileActions'',
     ''AllowInstanceProfileReadActions'',
     ''AllowAPIServerEndpointDiscovery'']"
  unfolding buildControllerPolicy_statements by (simp add: statement_defs)

text \<open>
  C10. Every statement of the controller policy has effect Allow, for every input
  triple; none is a Deny statement.
\<close>

theorem controller_policy_all_allow:
  "map effect (buildControllerPolicy aws c q r) = replicate 16 ALLOW
   \<and> DENY \<notin> effect ` set (buildControllerPolicy aws c q r)"
  unfolding buildControllerPolicy_statements by (simp add: statement_defs eval_nat_numeral)

lemma length_buildControllerPolicy: "length (buildControllerPolicy aws c q r) = 16"
  unfolding buildControllerPolicy_statements by simp

text \<open>
  C2. For every triple of strings the policy has the same fixed number of statements,
  sixteen, and its content is a function of the three strings: equal inputs give equal
  statement sequences. (The three constants of \<^verbatim>\<open>cdk.Aws\<close> are the same in both calls.)
\<close>

theorem controller_policy_fixed_length_deterministic:
  "length (buildControllerPolicy aws c q r) = 16 \<and>
   (c = c' \<and> q = q' \<and> r = r' \<longrightarrow>
      buildControllerPolicy aws c q r = buildControllerPolicy aws c' q' r')"
  by (simp add: length_buildControllerPolicy)

theorem controller_policy_fixed_length_deterministic_witness:
  "(''demo'' = ''demo''
     \<and> ''arn:aws:sqs:us-west-2:123:Karpenter-demo'' = ''arn:aws:sqs:us-west-2:123:Karpenter-demo''
     \<and> ''arn:aws:iam::123:role/KarpenterNodeInstanceRole-demo''
         = ''arn:aws:iam::123:role/KarpenterNodeInstanceRole-demo'')
   \<and> length (buildControllerPolicy demoAws ''demo'' ''arn:aws:sqs:us-west-2:123:Karpenter-demo''
        ''arn:aws:iam::123:role/KarpenterNodeInstanceRole-demo'') = 16
   \<and> buildControllerPolicy demoAws ''demo'' ''arn:aws:sqs:us-west-2:123:Karpenter-demo''
        ''arn:aws:iam::123:role/KarpenterNodeInstanceRole-demo''
     = buildControllerPolicy demoAws ''demo'' ''arn:aws:sqs:us-west-2:123:Karpenter-demo''
        ''arn:aws:iam::123:role/KarpenterNodeInstanceRole-demo''"
  using controller_policy_fixed_length_deterministic [of demoAws "''demo''"
      "''arn:aws:sqs:us-west-2:123:Karpenter-demo''"
      "''arn:aws:iam::123:role/KarpenterNodeInstanceRole-demo''" "''demo''"
      "''arn:aws:sqs:us-west-2:123:Karpenter-demo''"
      "''arn:aws:iam::123:role/KarpenterNodeInstanceRole-demo''"]
  by simp

text \<open>
  C5. With the interruption queue ARN \<open>arn:aws:sqs:us-west-2:123:Karpenter-demo\<close>, the
  policy has one statement with sid \<open>AllowInterruptionQueueActions\<close>, and its resource
  list is exactly the one-element list of that ARN.
\<close>

theorem interruption_queue_statement_resources:
  "map resources (filter (\<lambda>st. sid st = ''AllowInterruptionQueueActions'')
     (buildControllerPolicy aws c ''arn:aws:sqs:us-west-2:123:Karpenter-demo'' r))
   = [[''arn:aws:sqs:us-west-2:123:Karpenter-demo'']]"
  unfolding buildControllerPolicy_statements by (simp add: statement_defs)

text \<open>
  The condition object of the instance-profile tag statement, evaluated: no two of its
  computed keys coincide, whatever the cluster name is.
\<close>

lemma conditions_AllowScopedInstanceProfileTagActions:
  "conditions (AllowScopedInstanceProfileTagActions aws c) =
     [(''StringEquals'',
        [(''aws:ResourceTag/kubernetes.io/cluster/'' @ c, Str ''owned''),
         (''aws:ResourceTag/topology.kubernetes.io/region'', Str (REGION aws)),
         (''aws:RequestTag/kubernetes.io/cluster/'' @ c, Str ''owned''),
         (''aws:RequestTag/eks:eks-cluster-name'', Str c),
         (''aws:RequestTag/topology.kubernetes.io/region'', Str (REGION aws))]),
      (''StringLike'',
        [(''aws:ResourceTag/karpenter.k8s.aws/ec2nodeclass'', Str ''*''),
         (''aws:RequestTag/karpenter.k8s.aws/ec2nodeclass'', Str ''*'')])]"
  by (simp add: AllowScopedInstanceProfileTagActions_def objectLiteral_def)

lemma statementWithSid_AllowScopedInstanceProfileTagActions:
  "statementWithSid ''AllowScopedInstanceProfileTagActions'' (buildControllerPolicy aws c q r)
     = Some (AllowScopedInstanceProfileTagActions aws c)"
  unfolding buildControllerPolicy_statements statementWithSid_def by (simp add: statement_defs)

text \<open>
  C8. In the statement with sid \<open>AllowScopedInstanceProfileTagActions\<close>, each of the tag
  keys \<open>kubernetes.io/cluster/<clusterName>\<close>, \<open>topology.kubernetes.io/region\<close> and
  \<open>karpenter.k8s.aws/ec2nodeclass\<close> occurs both as \<open>aws:ResourceTag\<close> key and as
  \<open>aws:RequestTag\<close> key, the two with the same required value.
\<close>

theorem instance_profile_tag_conditions_repeated:
  "\<exists>st. statementWithSid ''AllowScopedInstanceProfileTagActions'' (buildControllerPolicy aws c q r) = Some st
     \<and> conditionValue (conditions st) ''StringEquals''
           (''aws:ResourceTag/kubernetes.io/cluster/'' @ c) = Some (Str ''owned'')
     \<and> conditionValue (conditions st) ''StringEquals''
           (''aws:RequestTag/kubernetes.io/cluster/'' @ c) = Some (Str ''owned'')
     \<and> conditionValue (conditions st) ''StringEquals''
           ''aws:ResourceTag/topology.kubernetes.io/region'' = Some (Str (REGION aws))
     \<and> conditionValue (conditions st) ''StringEquals''
           ''aws:RequestTag/topology.kubernetes.io/region'' = Some (Str (REGION aws))
     \<and> conditionValue (conditions st) ''StringLike''
           ''aws:ResourceTag/karpenter.k8s.aws/ec2nodeclass'' = Some (Str ''*'')
     \<and> conditionValue (conditions st) ''StringLike''
           ''aws:RequestTag/karpenter.k8s.aws/ec2nodeclass'' = Some (Str ''*'')"
  unfolding statementWithSid_AllowScopedInstanceProfileTagActions
  by (simp add: conditions_AllowScopedInstanceProfileTagActions conditionValue_def getProperty_def)

text \<open>
  C9, as the claim states it, does not hold. In a construct tree that holds the stack,
  the constructor registers the construct and its policy under the scope, so the tree
  after the call is not the tree before it; and for a cluster name that holds the
  marker of a token the call throws instead of returning.
\<close>

theorem controller_policy_total_counterexample:
  "map_sum id snd
     (KarpenterControllerPolicy demoLibrary demoAws [''KarpenterEksStack'', ''Karpenter'']
        ''KarpenterControllerPolicy''
        \<lparr> KarpenterControllerPolicyProps.clusterName = ''demo'',
          karpenterInterruptionQueueArn = ''arn:aws:sqs:us-west-2:123:Karpenter-demo'',
          karpenterNodeRoleArn = ''arn:aws:iam::123:role/KarpenterNodeInstanceRole-demo'' \<rparr>
        [[''KarpenterEksStack''], [''KarpenterEksStack'', ''Karpenter'']])
     = Inr [[''KarpenterEksStack''], [''KarpenterEksStack'', ''Karpenter''],
            [''KarpenterEksStack'', ''Karpenter'', ''KarpenterControllerPolicy''],
            [''KarpenterEksStack'', ''Karpenter'', ''KarpenterControllerPolicy'', ''Policy'']]
   \<and> KarpenterControllerPolicy demoLibrary demoAws [''KarpenterEksStack'', ''Karpenter'']
        ''KarpenterControllerPolicy''
        \<lparr> KarpenterControllerPolicyProps.clusterName = ''${Token[AWS.Region.0]}'',
          karpenterInterruptionQueueArn = ''arn:aws:sqs:us-west-2:123:Karpenter-demo'',
          karpenterNodeRoleArn = ''arn:aws:iam::123:role/KarpenterNodeInstanceRole-demo'' \<rparr>
        [[''KarpenterEksStack''], [''KarpenterEksStack'', ''Karpenter'']]
     = Inl (Thrown ''Unrecognized token key: AWS.Region.0'')"
  by (simp add: KarpenterControllerPolicy_def demoLibrary_def addChild_def managedPolicyProps_def
      tokenKeyChar_def)

text \<open>
  C9, amended. The policy assembler validates none of its three strings and has no error
  of its own: for every triple, the empty string and strings that are no ARN included,
  it fails exactly when one of the two library constructors that it calls throws, and
  with that error; it returns exactly when both return, and then with the sixteen
  statements, in which the queue ARN, the role ARN and the cluster name are copied as
  they are. Its effect on the construct tree is the effect of those two constructors.
\<close>

theorem controller_policy_fails_only_in_library:
  "(KarpenterControllerPolicy library aws scope i
       \<lparr> KarpenterControllerPolicyProps.clusterName = c, karpenterInterruptionQueueArn = q, karpenterNodeRoleArn = r \<rparr> w = Inl e
     \<longleftrightarrow> newConstruct library scope i w = Inl e
         \<or> (\<exists>this w1. newConstruct library scope i w = Inr (this, w1)
               \<and> newManagedPolicy library this ''Policy''
                     (managedPolicyProps aws \<lparr> KarpenterControllerPolicyProps.clusterName = c, karpenterInterruptionQueueArn = q,
                        karpenterNodeRoleArn = r \<rparr>) w1 = Inl e))
   \<and> (KarpenterControllerPolicy library aws scope i
       \<lparr> KarpenterControllerPolicyProps.clusterName = c, karpenterInterruptionQueueArn = q, karpenterNodeRoleArn = r \<rparr> w
         = Inr (object, w2)
     \<longleftrightarrow> (\<exists>w1. newConstruct library scope i w = Inr (construct object, w1)
               \<and> newManagedPolicy library (construct object) ''Policy''
                     (managedPolicyProps aws \<lparr> KarpenterControllerPolicyProps.clusterName = c, karpenterInterruptionQueueArn = q,
                        karpenterNodeRoleArn = r \<rparr>) w1 = Inr w2
               \<and> managedPolicy object
                     = managedPolicyProps aws \<lparr> KarpenterControllerPolicyProps.clusterName = c, karpenterInterruptionQueueArn = q,
                        karpenterNodeRoleArn = r \<rparr>))
   \<and> statements (managedPolicyProps aws \<lparr> KarpenterControllerPolicyProps.clusterName = c, karpenterInterruptionQueueArn = q,
           karpenterNodeRoleArn = r \<rparr>) = buildControllerPolicy aws c q r
   \<and> length (buildControllerPolicy aws c q r) = 16
   \<and> map resources (filter (\<lambda>st. sid st = ''AllowInterruptionQueueActions'')
         (buildControllerPolicy aws c q r)) = [[q]]
   \<and> map resources (filter (\<lambda>st. sid st = ''AllowPassingInstanceRole'')
         (buildControllerPolicy aws c q r)) = [[r]]
   \<and> map resources (filter (\<lambda>st. sid st = ''AllowAPIServerEndpointDiscovery'')
         (buildControllerPolicy aws c q r))
        = [[''arn:'' @ PARTITION aws @ '':eks:'' @ REGION aws @ '':'' @ ACCOUNT_ID aws @ '':cluster/'' @ c]]"
proof -
  let ?p = "\<lparr> KarpenterControllerPolicyProps.clusterName = c, karpenterInterruptionQueueArn = q, karpenterNodeRoleArn = r \<rparr>"
  have fails: "KarpenterControllerPolicy library aws scope i ?p w = Inl e
     \<longleftrightarrow> newConstruct library scope i w = Inl e
         \<or> (\<exists>this w1. newConstruct library scope i w = Inr (this, w1)
               \<and> newManagedPolicy library this ''Policy'' (managedPolicyProps aws ?p) w1 = Inl e)"
    by (auto simp: KarpenterControllerPolicy_def split: sum.splits prod.splits)
  have returns: "KarpenterControllerPolicy library aws scope i ?p w = Inr (object, w2)
     \<longleftrightarrow> (\<exists>w1. newConstruct library scope i w = Inr (construct object, w1)
               \<and> newManagedPolicy library (construct object) ''Policy''
                     (managedPolicyProps aws ?p) w1 = Inr w2
               \<and> managedPolicy object = managedPolicyProps aws ?p)"
    by (cases object) (auto simp: KarpenterControllerPolicy_def split: sum.splits prod.splits)
  have statements: "statements (managedPolicyProps aws ?p) = buildControllerPolicy aws c q r"
    by (simp add: buildControllerPolicy_def)
  have copied: "map resources (filter (\<lambda>st. sid st = ''AllowInterruptionQueueActions'')
         (buildControllerPolicy aws c q r)) = [[q]]"
    "map resources (filter (\<lambda>st. sid st = ''AllowPassingInstanceRole'')
         (buildControllerPolicy aws c q r)) = [[r]]"
    "map resources (filter (\<lambda>st. sid st = ''AllowAPIServerEndpointDiscovery'')
         (buildControllerPolicy aws c q r))
        = [[''arn:'' @ PARTITION aws @ '':eks:'' @ REGION aws @ '':'' @ ACCOUNT_ID aws @ '':cluster/'' @ c]]"
    unfolding buildControllerPolicy_statements by (simp_all add: statement_defs)
  show ?thesis
    using fails returns statements length_buildControllerPolicy [of aws c q r] copied
    by (intro conjI)
qed


section \<open>Properties of the manifest graph\<close>

text \<open>The graph that the constructor builds, for every configuration.\<close>

lemma buildDeploymentGraph_nodes:
  "buildDeploymentGraph config = [
     \<lparr> nodeId = ''KarpenterNamespace'', body = KarpenterNamespaceManifest, dependsOn = [] \<rparr>,
     \<lparr> nodeId = ''KarpenterServiceAccount'', body = KarpenterServiceAccountManifest config,
       dependsOn = [''KarpenterNamespace''] \<rparr>,
     \<lparr> nodeId = ''KarpenterController'', body = KarpenterControllerManifest config,
       dependsOn = [''KarpenterServiceAccount''] \<rparr>,
     \<lparr> nodeId = ''KarpenterInstallerRole'', body = KarpenterInstallerRoleManifest, dependsOn = [] \<rparr>,
     \<lparr> nodeId = ''KarpenterInstallerRoleBinding'', body = KarpenterInstallerRoleBindingManifest,
       dependsOn = [] \<rparr>,
     \<lparr> nodeId = ''KarpenterInstallJob'', body = KarpenterInstallJobManifest config,
       dependsOn = [''KarpenterController''] \<rparr>,
     \<lparr> nodeId = ''DefaultNodePool'', body = DefaultNodePoolManifest,
       dependsOn = [''KarpenterInstallJob''] \<rparr>,
     \<lparr> nodeId = ''DefaultNodeClass'', body = DefaultNodeClassManifest config,
       dependsOn = [''KarpenterInstallJob''] \<rparr>]"
  by (simp add: buildDeploymentGraph_def addManifest_def addDependency_def Let_def)

lemma kinds:
  "kind \<lparr> nodeId = i1, body = KarpenterNamespaceManifest, dependsOn = d1 \<rparr> = Some ''Namespace''"
  "kind \<lparr> nodeId = i2, body = KarpenterServiceAccountManifest config, dependsOn = d2 \<rparr> = Some ''ServiceAccount''"
  "kind \<lparr> nodeId = i3, body = KarpenterControllerManifest config, dependsOn = d3 \<rparr> = Some ''ConfigMap''"
  "kind \<lparr> nodeId = i4, body = KarpenterInstallerRoleManifest, dependsOn = d4 \<rparr> = Some ''ClusterRole''"
  "kind \<lparr> nodeId = i5, body = KarpenterInstallerRoleBindingManifest, dependsOn = d5 \<rparr> = Some ''ClusterRoleBinding''"
  "kind \<lparr> nodeId = i6, body = KarpenterInstallJobManifest config, dependsOn = d6 \<rparr> = Some ''Job''"
  "kind \<lparr> nodeId = i7, body = DefaultNodePoolManifest, dependsOn = d7 \<rparr> = Some ''NodePool''"
  "kind \<lparr> nodeId = i8, body = DefaultNodeClassManifest config, dependsOn = d8 \<rparr> = Some ''EC2NodeClass''"
  by (simp_all add: kind_def getProperty_def objectLiteral_def
      KarpenterNamespaceManifest_def KarpenterServiceAccountManifest_def KarpenterControllerManifest_def
      KarpenterInstallerRoleManifest_def KarpenterInstallerRoleBindingManifest_def
      KarpenterInstallJobManifest_def DefaultNodePoolManifest_def DefaultNodeClassManifest_def)

lemma nodeIds_buildDeploymentGraph:
  "map nodeId (buildDeploymentGraph config) = [
     ''KarpenterNamespace'', ''KarpenterServiceAccount'', ''KarpenterController'',
     ''KarpenterInstallerRole'', ''KarpenterInstallerRoleBinding'', ''KarpenterInstallJob'',
     ''DefaultNodePool'', ''DefaultNodeClass'']"
  unfolding buildDeploymentGraph_nodes by simp

text \<open>The identifiers are distinct, so an identifier stands for one construct.\<close>

lemma distinct_nodeIds_buildDeploymentGraph: "distinct (map nodeId (buildDeploymentGraph config))"
  unfolding nodeIds_buildDeploymentGraph by simp

lemma kinds_buildDeploymentGraph:
  "map kind (buildDeploymentGraph config) = [
     Some ''Namespace'', Some ''ServiceAccount'', Some ''ConfigMap'',
     Some ''ClusterRole'', Some ''ClusterRoleBinding'', Some ''Job'',
     Some ''NodePool'', Some ''EC2NodeClass'']"
  unfolding buildDeploymentGraph_nodes by (simp only: list.map kinds)

lemma dependsOn_buildDeploymentGraph:
  "map dependsOn (buildDeploymentGraph config) = [
     [], [''KarpenterNamespace''], [''KarpenterServiceAccount''], [], [],
     [''KarpenterController''], [''KarpenterInstallJob''], [''KarpenterInstallJob'']]"
  unfolding buildDeploymentGraph_nodes by simp

lemma dependsOnEdges_buildDeploymentGraph:
  "dependsOnEdges (buildDeploymentGraph config) = [
     (''KarpenterServiceAccount'', ''KarpenterNamespace''),
     (''KarpenterController'', ''KarpenterServiceAccount''),
     (''KarpenterInstallJob'', ''KarpenterController''),
     (''DefaultNodePool'', ''KarpenterInstallJob''),
     (''DefaultNodeClass'', ''KarpenterInstallJob'')]"
  unfolding buildDeploymentGraph_nodes dependsOnEdges_def by simp

lemma nodesOfKind_buildDeploymentGraph:
  "nodesOfKind ''ServiceAccount'' (buildDeploymentGraph config) =
     [\<lparr> nodeId = ''KarpenterServiceAccount'', body = KarpenterServiceAccountManifest config,
        dependsOn = [''KarpenterNamespace''] \<rparr>]"
  "nodesOfKind ''ConfigMap'' (buildDeploymentGraph config) =
     [\<lparr> nodeId = ''KarpenterController'', body = KarpenterControllerManifest config,
        dependsOn = [''KarpenterServiceAccount''] \<rparr>]"
  "nodesOfKind ''Job'' (buildDeploymentGraph config) =
     [\<lparr> nodeId = ''KarpenterInstallJob'', body = KarpenterInstallJobManifest config,
        dependsOn = [''KarpenterController''] \<rparr>]"
  unfolding buildDeploymentGraph_nodes nodesOfKind_def by (simp_all add: kinds)

text \<open>
  C4. The nodes are built in the order namespace, service account, config map (the
  install script), job, custom-resource instances, and the dependsOn edges are exactly
  the ones of that order: the service account on the namespace, the config map on the
  service account, the job on the config map, the node pool and the node class on the job.
  (The cluster role and the cluster role binding of the installer are built between the
  config map and the job; they have no edge.)
\<close>

theorem deployment_graph_order_and_edges:
  "map nodeId (buildDeploymentGraph config) = [
     ''KarpenterNamespace'', ''KarpenterServiceAccount'', ''KarpenterController'',
     ''KarpenterInstallerRole'', ''KarpenterInstallerRoleBinding'', ''KarpenterInstallJob'',
     ''DefaultNodePool'', ''DefaultNodeClass'']
   \<and> map kind (buildDeploymentGraph config) = [
     Some ''Namespace'', Some ''ServiceAccount'', Some ''ConfigMap'',
     Some ''ClusterRole'', Some ''ClusterRoleBinding'', Some ''Job'',
     Some ''NodePool'', Some ''EC2NodeClass'']
   \<and> dependsOnEdges (buildDeploymentGraph config) = [
     (''KarpenterServiceAccount'', ''KarpenterNamespace''),
     (''KarpenterController'', ''KarpenterServiceAccount''),
     (''KarpenterInstallJob'', ''KarpenterController''),
     (''DefaultNodePool'', ''KarpenterInstallJob''),
     (''DefaultNodeClass'', ''KarpenterInstallJob'')]"
  by (simp only: nodeIds_buildDeploymentGraph kinds_buildDeploymentGraph
      dependsOnEdges_buildDeploymentGraph simp_thms)

text \<open>
  C3. The dependsOn relation of the graph is acyclic, for every configuration: no node
  is reachable from itself along dependsOn edges.
\<close>

theorem deployment_graph_acyclic:
  "acyclic (set (dependsOnEdges (buildDeploymentGraph config)))"
proof -
  define rank :: "string \<Rightarrow> nat" where
    "rank = (\<lambda>i. if i = ''KarpenterNamespace'' then 0
                else if i = ''KarpenterServiceAccount'' then 1
                else if i = ''KarpenterController'' then 2
                else if i = ''KarpenterInstallJob'' then 3
                else 4)"
  have "rank b < rank a" if "(a, b) \<in> set (dependsOnEdges (buildDeploymentGraph config))" for a b
    using that unfolding dependsOnEdges_buildDeploymentGraph rank_def by auto
  then show ?thesis by (rule acyclicI_order)
qed

text \<open>
  C1, as the claim states it, does not hold: the dependsOn set of the installer job is
  not the set of the service account.
\<close>

theorem installer_job_dependsOn_counterexample:
  "map (set \<circ> dependsOn) (nodesOfKind ''Job'' (buildDeploymentGraph demoConfig))
     \<noteq> [set (map nodeId (nodesOfKind ''ServiceAccount'' (buildDeploymentGraph demoConfig)))]"
  by (simp add: nodesOfKind_buildDeploymentGraph)

text \<open>
  C1, amended. For the graph built with cluster name \<open>demo\<close>, the dependsOn set of the
  installer job holds the config map of the install script and no other node. The
  config map in turn depends on the service account, which the job reaches only through it.
\<close>

theorem installer_job_dependsOn_config_map:
  assumes "clusterName config = ''demo''"
  shows "map nodeId (nodesOfKind ''Job'' (buildDeploymentGraph config)) = [''KarpenterInstallJob'']
    \<and> map nodeId (nodesOfKind ''ConfigMap'' (buildDeploymentGraph config)) = [''KarpenterController'']
    \<and> map (set \<circ> dependsOn) (nodesOfKind ''Job'' (buildDeploymentGraph config))
        = [set (map nodeId (nodesOfKind ''ConfigMap'' (buildDeploymentGraph config)))]
    \<and> map (set \<circ> dependsOn) (nodesOfKind ''ConfigMap'' (buildDeploymentGraph config))
        = [set (map nodeId (nodesOfKind ''ServiceAccount'' (buildDeploymentGraph config)))]"
  by (simp add: nodesOfKind_buildDeploymentGraph)

theorem installer_job_dependsOn_config_map_witness:
  "clusterName demoConfig = ''demo''
    \<and> map nodeId (nodesOfKind ''Job'' (buildDeploymentGraph demoConfig)) = [''KarpenterInstallJob'']
    \<and> map nodeId (nodesOfKind ''ConfigMap'' (buildDeploymentGraph demoConfig)) = [''KarpenterController'']
    \<and> map (set \<circ> dependsOn) (nodesOfKind ''Job'' (buildDeploymentGraph demoConfig))
        = [set (map nodeId (nodesOfKind ''ConfigMap'' (buildDeploymentGraph demoConfig)))]
    \<and> map (set \<circ> dependsOn) (nodesOfKind ''ConfigMap'' (buildDeploymentGraph demoConfig))
        = [set (map nodeId (nodesOfKind ''ServiceAccount'' (buildDeploymentGraph demoConfig)))]"
proof -
  have h: "clusterName demoConfig = ''demo''" by (simp add: demoConfig_def)
  show ?thesis using h installer_job_dependsOn_config_map [OF h] by (rule conjI)
qed


section \<open>Properties of the rendering\<close>

text \<open>
  How the scanner reads a template that is given in pieces: text without a dollar sign
  is copied, and \<^verbatim>\<open>${name}\<close> becomes the placeholder \<open>name\<close>.
\<close>

lemma scan_text: "CHR ''$'' \<notin> set l \<Longrightarrow> scan None (l @ r) = map Chr l @ scan None r"
  by (induction l) auto

lemma scan_name:
  "CHR ''}'' \<notin> set n \<Longrightarrow> scan (Some acc) (n @ CHR ''}'' # r) = Placeholder (acc @ n) # scan None r"
  by (induction n arbitrary: acc) auto

lemma scan_placeholder:
  assumes "CHR ''$'' \<notin> set pre" and "CHR ''}'' \<notin> set name"
  shows "scan None (pre @ ''${'' @ name @ ''}'' @ rest) = map Chr pre @ Placeholder name # scan None rest"
proof -
  have "scan None (''${'' @ name @ ''}'' @ rest) = scan (Some []) (name @ CHR ''}'' # rest)"
    by simp
  also have "\<dots> = Placeholder name # scan None rest"
    using scan_name [OF assms(2), of "[]" rest] by simp
  finally show ?thesis
    using scan_text [OF assms(1)] by simp
qed

lemma renderParts_text:
  "renderParts variables (map Chr l @ ps) = map_sum id ((@) l) (renderParts variables ps)"
proof (induction l)
  case Nil
  show ?case by (cases "renderParts variables ps") simp_all
next
  case (Cons c l)
  then show ?case by (cases "renderParts variables ps") simp_all
qed

lemma placeholdersOf_text: "placeholdersOf (map Chr l @ ps) = placeholdersOf ps"
  by (induction l) auto

lemma placeholders_text: "CHR ''$'' \<notin> set l \<Longrightarrow> placeholders l = []"
  using scan_text [of l "[]"] placeholdersOf_text [of l "[]"]
  by (simp add: placeholders_def parseTemplate_def)

lemma placeholders_placeholder:
  assumes "CHR ''$'' \<notin> set pre" and "CHR ''}'' \<notin> set name"
  shows "placeholders (pre @ ''${'' @ name @ ''}'' @ rest) = name # placeholders rest"
  unfolding placeholders_def parseTemplate_def scan_placeholder [OF assms] placeholdersOf_text
  by simp

lemma substitute_text:
  "CHR ''$'' \<notin> set l \<Longrightarrow> substitute l variables = Inr l"
  using scan_text [of l "[]"] renderParts_text [of variables l "[]"]
  by (simp add: substitute_def parseTemplate_def)

lemma substitute_placeholder:
  assumes "CHR ''$'' \<notin> set pre" and "CHR ''}'' \<notin> set name" and "variables name = Some v"
  shows "substitute (pre @ ''${'' @ name @ ''}'' @ rest) variables
           = map_sum id ((@) (pre @ v)) (substitute rest variables)"
  unfolding substitute_def parseTemplate_def scan_placeholder [OF assms(1,2)] renderParts_text
  using assms(3) by (cases "renderParts variables (scan None rest)") simp_all

lemma substitute_first_missing:
  assumes "CHR ''$'' \<notin> set pre" and "CHR ''}'' \<notin> set name" and "variables name = None"
  shows "substitute (pre @ ''${'' @ name @ ''}'' @ rest) variables = Inl (MissingVariable name)"
  unfolding substitute_def parseTemplate_def scan_placeholder [OF assms(1,2)] renderParts_text
  using assms(3) by simp

text \<open>
  Rendering fails exactly when a placeholder of the template has no value, and the
  error names the first such placeholder.
\<close>

lemma renderParts_fails_iff:
  "(\<exists>name. renderParts variables ps = Inl (MissingVariable name))
     \<longleftrightarrow> (\<exists>name \<in> set (placeholdersOf ps). variables name = None)"
proof (induction ps)
  case Nil
  show ?case by simp
next
  case (Cons p ps)
  show ?case
  proof (cases p)
    case (Chr c)
    with Cons show ?thesis by (cases "renderParts variables ps") auto
  next
    case (Placeholder n)
    with Cons show ?thesis
      by (cases "variables n"; cases "renderParts variables ps") auto
  qed
qed

lemma substitute_fails_iff:
  "(\<exists>name. substitute text variables = Inl (MissingVariable name))
     \<longleftrightarrow> (\<exists>name \<in> set (placeholders text). variables name = None)"
  unfolding substitute_def placeholders_def by (rule renderParts_fails_iff)

text \<open>The result depends on the variables only through the placeholders of the template.\<close>

lemma renderParts_cong:
  "(\<And>name. name \<in> set (placeholdersOf ps) \<Longrightarrow> variables name = variables' name)
     \<Longrightarrow> renderParts variables ps = renderParts variables' ps"
proof (induction ps)
  case Nil
  show ?case by simp
next
  case (Cons p ps)
  then show ?case by (cases p) (auto split: option.splits)
qed

text \<open>The placeholders of the user-data template.\<close>

lemma split3:
  "take m (drop n xs) = ys \<Longrightarrow> xs = take n xs @ ys @ drop (n + m) xs"
  by (metis append_take_drop_id drop_drop add.commute)

lemma userdata_text_1: "CHR ''$'' \<notin> set (take 776 node_group_userdata_sh)"
  by (simp add: node_group_userdata_sh_def)

lemma userdata_placeholder_1: "take 15 (drop 776 node_group_userdata_sh) = ''${CRUN_VERSION}''"
  by (simp add: node_group_userdata_sh_def)

lemma userdata_text_2: "take 6 (drop 791 node_group_userdata_sh) = ''/crun-''"
  by (simp add: node_group_userdata_sh_def)

lemma userdata_placeholder_2: "take 15 (drop 797 node_group_userdata_sh) = ''${CRUN_VERSION}''"
  by (simp add: node_group_userdata_sh_def)

lemma userdata_text_3: "CHR ''$'' \<notin> set (take 2494 (drop 812 node_group_userdata_sh))"
  by (simp add: node_group_userdata_sh_def)

lemma userdata_placeholder_3: "take 15 (drop 3306 node_group_userdata_sh) = ''${CLUSTER_NAME}''"
  by (simp add: node_group_userdata_sh_def)

lemma userdata_text_4: "CHR ''$'' \<notin> set (drop 3321 node_group_userdata_sh)"
  by (simp add: node_group_userdata_sh_def)

lemma userdata_split_1:
  "node_group_userdata_sh =
     take 776 node_group_userdata_sh @ ''${'' @ ''CRUN_VERSION'' @ ''}'' @ drop 791 node_group_userdata_sh"
  using split3 [OF userdata_placeholder_1] by simp

lemma userdata_split_2:
  "drop 791 node_group_userdata_sh =
     ''/crun-'' @ ''${'' @ ''CRUN_VERSION'' @ ''}'' @ drop 812 node_group_userdata_sh"
proof -
  have "drop 791 node_group_userdata_sh
          = take 6 (drop 791 node_group_userdata_sh) @ drop 6 (drop 791 node_group_userdata_sh)"
    by (simp only: append_take_drop_id)
  moreover have "drop 6 (drop 791 node_group_userdata_sh)
          = ''${CRUN_VERSION}'' @ drop 15 (drop 797 node_group_userdata_sh)"
    using userdata_placeholder_2 append_take_drop_id [of 15 "drop 797 node_group_userdata_sh"]
    by (simp only: drop_drop) simp
  ultimately show ?thesis
    using userdata_text_2 by simp
qed

lemma userdata_split_3:
  "drop 812 node_group_userdata_sh =
     take 2494 (drop 812 node_group_userdata_sh) @ ''${'' @ ''CLUSTER_NAME'' @ ''}''
       @ drop 3321 node_group_userdata_sh"
  using split3 [of 15 2494 "drop 812 node_group_userdata_sh" "''${CLUSTER_NAME}''"]
    userdata_placeholder_3 by simp

lemma placeholders_userdata:
  "placeholders (templateText NodeGroupUserdata) = [''CRUN_VERSION'', ''CRUN_VERSION'', ''CLUSTER_NAME'']"
proof -
  let ?t = node_group_userdata_sh
  have "placeholders (drop 812 ?t)
          = placeholders (take 2494 (drop 812 ?t) @ ''${'' @ ''CLUSTER_NAME'' @ ''}'' @ drop 3321 ?t)"
    by (rule arg_cong [OF userdata_split_3])
  also have "\<dots> = ''CLUSTER_NAME'' # placeholders (drop 3321 ?t)"
    by (rule placeholders_placeholder [OF userdata_text_3]) simp
  finally have c: "placeholders (drop 812 ?t) = [''CLUSTER_NAME'']"
    by (simp only: placeholders_text [OF userdata_text_4])
  have "placeholders (drop 791 ?t)
          = placeholders (''/crun-'' @ ''${'' @ ''CRUN_VERSION'' @ ''}'' @ drop 812 ?t)"
    by (rule arg_cong [OF userdata_split_2])
  also have "\<dots> = ''CRUN_VERSION'' # placeholders (drop 812 ?t)"
    by (rule placeholders_placeholder) simp_all
  finally have b: "placeholders (drop 791 ?t) = [''CRUN_VERSION'', ''CLUSTER_NAME'']"
    by (simp only: c)
  have "placeholders ?t
          = placeholders (take 776 ?t @ ''${'' @ ''CRUN_VERSION'' @ ''}'' @ drop 791 ?t)"
    by (rule arg_cong [OF userdata_split_1])
  also have "\<dots> = ''CRUN_VERSION'' # placeholders (drop 791 ?t)"
    by (rule placeholders_placeholder [OF userdata_text_1]) simp
  finally show ?thesis
    by (simp only: b templateText_def TemplateId.case)
qed

text \<open>
  C6. Rendering the user-data template with \<open>CLUSTER_NAME = demo\<close>, the one variable that
  the repository supplies, does not succeed: the script's own shell expansion
  \<^verbatim>\<open>${CRUN_VERSION}\<close> is read as a placeholder, it has no value, and the rendering fails
  with \<open>MissingVariable\<close> before it reaches the bootstrap line.
\<close>

theorem render_userdata_demo_missing_variable:
  "renderTemplate NodeGroupUserdata (user_data_vars ''demo'') = Inl (MissingVariable ''CRUN_VERSION'')"
proof -
  have "substitute node_group_userdata_sh (user_data_vars ''demo'')
          = substitute (take 776 node_group_userdata_sh @ ''${'' @ ''CRUN_VERSION'' @ ''}''
              @ drop 791 node_group_userdata_sh) (user_data_vars ''demo'')"
    by (rule arg_cong [OF userdata_split_1])
  also have "\<dots> = Inl (MissingVariable ''CRUN_VERSION'')"
    by (rule substitute_first_missing [OF userdata_text_1]) (simp_all add: user_data_vars_def)
  finally show ?thesis
    by (simp only: renderTemplate_def templateText_def TemplateId.case)
qed

text \<open>
  The other half of the same property holds: without a value for \<open>CLUSTER_NAME\<close> the
  rendering fails with \<open>MissingVariable\<close>, whatever else is supplied.
\<close>

lemma render_userdata_without_cluster_name:
  assumes "variables ''CLUSTER_NAME'' = None"
  shows "\<exists>name. renderTemplate NodeGroupUserdata variables = Inl (MissingVariable name)"
  unfolding renderTemplate_def substitute_fails_iff placeholders_userdata
  using assms by simp

text \<open>
  Once \<open>CRUN_VERSION\<close> has a value too, the rendering succeeds, and the cluster name
  stands where the placeholder of the bootstrap invocation stood.
\<close>

lemma render_userdata_both_variables:
  assumes "variables ''CLUSTER_NAME'' = Some n" and "variables ''CRUN_VERSION'' = Some v"
  shows "renderTemplate NodeGroupUserdata variables =
           Inr (take 776 node_group_userdata_sh @ v @ ''/crun-'' @ v
                @ take 2494 (drop 812 node_group_userdata_sh) @ n @ drop 3321 node_group_userdata_sh)"
proof -
  let ?t = node_group_userdata_sh
  have "substitute (drop 812 ?t) variables
          = substitute (take 2494 (drop 812 ?t) @ ''${'' @ ''CLUSTER_NAME'' @ ''}'' @ drop 3321 ?t) variables"
    by (rule arg_cong [OF userdata_split_3])
  also have "\<dots> = map_sum id ((@) (take 2494 (drop 812 ?t) @ n)) (substitute (drop 3321 ?t) variables)"
    by (rule substitute_placeholder [where name = "''CLUSTER_NAME''" and variables = variables, OF userdata_text_3 _ assms(1)]) simp
  finally have c: "substitute (drop 812 ?t) variables = Inr (take 2494 (drop 812 ?t) @ n @ drop 3321 ?t)"
    by (simp add: substitute_text [OF userdata_text_4])
  have "substitute (drop 791 ?t) variables
          = substitute (''/crun-'' @ ''${'' @ ''CRUN_VERSION'' @ ''}'' @ drop 812 ?t) variables"
    by (rule arg_cong [OF userdata_split_2])
  also have "\<dots> = map_sum id ((@) (''/crun-'' @ v)) (substitute (drop 812 ?t) variables)"
    by (rule substitute_placeholder [where name = "''CRUN_VERSION''" and variables = variables, OF _ _ assms(2)]) simp_all
  finally have b: "substitute (drop 791 ?t) variables
          = Inr (''/crun-'' @ v @ take 2494 (drop 812 ?t) @ n @ drop 3321 ?t)"
    by (simp add: c)
  have "substitute ?t variables
          = substitute (take 776 ?t @ ''${'' @ ''CRUN_VERSION'' @ ''}'' @ drop 791 ?t) variables"
    by (rule arg_cong [OF userdata_split_1])
  also have "\<dots> = map_sum id ((@) (take 776 ?t @ v)) (substitute (drop 791 ?t) variables)"
    by (rule substitute_placeholder [where name = "''CRUN_VERSION''" and variables = variables, OF userdata_text_1 _ assms(2)]) simp
  finally show ?thesis
    by (simp add: b renderTemplate_def templateText_def)
qed

lemma userdata_bootstrap_line:
  "take 24 (drop 3284 node_group_userdata_sh) = ''/etc/eks/bootstrap.sh '' @ ''${''"
  by (simp add: node_group_userdata_sh_def)

text \<open>
  C7. Rendering is a function of the template and the variables: rendering the same
  template with the same variables twice gives the same result, character by character.
\<close>

theorem renderTemplate_deterministic:
  "templateId = templateId' \<and> variables = variables'
     \<longrightarrow> renderTemplate templateId variables = renderTemplate templateId' variables'"
  by simp

theorem renderTemplate_deterministic_witness:
  "(NodeGroupUserdata = NodeGroupUserdata \<and> user_data_vars ''demo'' = user_data_vars ''demo'')
   \<and> renderTemplate NodeGroupUserdata (user_data_vars ''demo'')
       = renderTemplate NodeGroupUserdata (user_data_vars ''demo'')"
  using renderTemplate_deterministic [of NodeGroupUserdata NodeGroupUserdata "user_data_vars ''demo''" "user_data_vars ''demo''"]
  by simp

end
